theory Spec2Isabelle
  imports Complex_Main "HOL-Library.AList"
begin

section \<open>Resume analyzer: the scoring and extraction pipeline of resume\_analyzer.py\<close>

text \<open>
  The class \<open>ResumeAnalyzer\<close> is a pure pipeline: text to report to recommendations.
  Python strings are modelled as \<open>string\<close>: a character is one of the code points
  U+0000 to U+00FF. On all of them the digit, whitespace and word-character tests and
  \<open>str.lower()\<close> are Python's; \<open>str.title()\<close> is Python's on ASCII (no tag or category
  name of the program has another character). Python floats are modelled as exact numbers
  (\<open>real\<close>), and \<open>round(x, 2)\<close> as rounding half to even on the exact value.
\<close>

subsection \<open>Characters and strings\<close>

definition code_point :: "char \<Rightarrow> nat" where
  "code_point c = of_char c"

definition in_range :: "char \<Rightarrow> char \<Rightarrow> char \<Rightarrow> bool" where
  "in_range lo hi c = (code_point lo \<le> code_point c \<and> code_point c \<le> code_point hi)"

definition is_digit :: "char \<Rightarrow> bool" where
  "is_digit c = in_range CHR ''0'' CHR ''9'' c"

definition is_upper :: "char \<Rightarrow> bool" where
  "is_upper c = in_range CHR ''A'' CHR ''Z'' c"

definition is_lower :: "char \<Rightarrow> bool" where
  "is_lower c = in_range CHR ''a'' CHR ''z'' c"

text \<open>
  Python's whitespace (\<open>str.isspace\<close>, the whitespace class of \<open>re\<close>, the separators of
  \<open>str.split()\<close>): tab to carriage return, the four separators and the space, next line
  (U+0085) and the no-break space (U+00A0).
\<close>

definition is_space :: "char \<Rightarrow> bool" where
  "is_space c =
     (in_range (CHR 0x09) (CHR 0x0D) c \<or> in_range (CHR 0x1C) (CHR 0x20) c
      \<or> c = CHR 0x85 \<or> c = CHR 0xA0)"

text \<open>
  The letters and numeric characters above ASCII: the ordinal indicators, the superscript
  digits, the micro sign, the fractions, and the letters U+00C0 to U+00FF without the
  multiplication and the division sign.
\<close>

definition is_latin1_alnum :: "char \<Rightarrow> bool" where
  "is_latin1_alnum c =
     (c = CHR 0xAA \<or> in_range (CHR 0xB2) (CHR 0xB3) c \<or> c = CHR 0xB5
      \<or> in_range (CHR 0xB9) (CHR 0xBA) c \<or> in_range (CHR 0xBC) (CHR 0xBE) c
      \<or> in_range (CHR 0xC0) (CHR 0xD6) c \<or> in_range (CHR 0xD8) (CHR 0xF6) c
      \<or> in_range (CHR 0xF8) (CHR 0xFF) c)"

text \<open>The word characters of \<open>re\<close>, which the word boundary reads.\<close>

definition is_word :: "char \<Rightarrow> bool" where
  "is_word c =
     (is_upper c \<or> is_lower c \<or> is_digit c \<or> c = CHR ''_'' \<or> is_latin1_alnum c)"

text \<open>
  The lower case of a character: the capital letters A to Z and U+00C0 to U+00DE (without
  the multiplication sign) move up by 32.
\<close>

definition lower_char :: "char \<Rightarrow> char" where
  "lower_char c =
     (if is_upper c \<or> in_range (CHR 0xC0) (CHR 0xD6) c \<or> in_range (CHR 0xD8) (CHR 0xDE) c
      then char_of (code_point c + 32) else c)"

definition upper_char :: "char \<Rightarrow> char" where
  "upper_char c = (if is_lower c then char_of (code_point c - 32) else c)"

text \<open>\<open>str.lower()\<close>.\<close>

definition lower :: "string \<Rightarrow> string" where
  "lower s = map lower_char s"

text \<open>
  \<open>str.title()\<close> on ASCII: a cased character after a cased one is lowered, any other is
  raised.
\<close>

fun title_from :: "bool \<Rightarrow> string \<Rightarrow> string" where
  "title_from prev [] = []"
| "title_from prev (c # cs) =
     (if prev then lower_char c else upper_char c) # title_from (is_upper c \<or> is_lower c) cs"

definition title :: "string \<Rightarrow> string" where
  "title s = title_from False s"

text \<open>\<open>str.replace(old, new)\<close> for one-character \<open>old\<close> and \<open>new\<close>.\<close>

definition replace_char :: "char \<Rightarrow> char \<Rightarrow> string \<Rightarrow> string" where
  "replace_char old new s = map (\<lambda>c. if c = old then new else c) s"

text \<open>\<open>sep.join(xs)\<close>.\<close>

fun join :: "string \<Rightarrow> string list \<Rightarrow> string" where
  "join sep [] = []"
| "join sep [x] = x"
| "join sep (x # y # ys) = x @ sep @ join sep (y # ys)"

text \<open>\<open>str.split()\<close> with no argument: the maximal runs of non-space characters.\<close>

fun split_from :: "string \<Rightarrow> string \<Rightarrow> string list" where
  "split_from cur [] = (if cur = [] then [] else [cur])"
| "split_from cur (c # cs) =
     (if is_space c then (if cur = [] then split_from [] cs else cur # split_from [] cs)
      else split_from (cur @ [c]) cs)"

definition py_split :: "string \<Rightarrow> string list" where
  "py_split s = split_from [] s"

fun is_prefix :: "string \<Rightarrow> string \<Rightarrow> bool" where
  "is_prefix [] ys = True"
| "is_prefix (x # xs) [] = False"
| "is_prefix (x # xs) (y # ys) = (x = y \<and> is_prefix xs ys)"

text \<open>\<open>kw in s\<close> on strings: \<open>kw\<close> occurs in \<open>s\<close> as a contiguous substring.\<close>

fun contains :: "string \<Rightarrow> string \<Rightarrow> bool" where
  "contains [] kw = (kw = [])"
| "contains (c # cs) kw = (is_prefix kw (c # cs) \<or> contains cs kw)"

subsection \<open>Numbers\<close>

definition round_half_even :: "real \<Rightarrow> int" where
  "round_half_even y =
     (let f = \<lfloor>y\<rfloor>; d = y - of_int f
      in if d < 1 / 2 then f else if 1 / 2 < d then f + 1
         else if even f then f else f + 1)"

text \<open>\<open>round(x, nd)\<close>.\<close>

definition py_round :: "real \<Rightarrow> nat \<Rightarrow> real" where
  "py_round x nd = of_int (round_half_even (x * 10 ^ nd)) / 10 ^ nd"

subsection \<open>Regular expressions, as the module \<open>re\<close> matches them\<close>

text \<open>
  The patterns of the program use literals, character classes, the word boundary,
  sequence, alternation, the greedy optional, greedy bounded or unbounded repetition of a
  character class, and capturing groups. A match state is the text before the cursor
  (reversed), the text after it, and the groups captured so far. \<open>rmatch\<close> lists the
  states a pattern can end in, in the order a backtracking matcher tries them, so the head
  of the list is the match \<open>re\<close> reports.
\<close>

datatype citem = Single char | Between char char | Digit | Space

fun in_item :: "citem \<Rightarrow> char \<Rightarrow> bool" where
  "in_item (Single x) c = (c = x)"
| "in_item (Between lo hi) c = in_range lo hi c"
| "in_item Digit c = is_digit c"
| "in_item Space c = is_space c"

definition in_class :: "citem list \<Rightarrow> char \<Rightarrow> bool" where
  "in_class cl c = list_ex (\<lambda>i. in_item i c) cl"

datatype regex =
    Lit string
  | Cls "citem list"
  | WordB
  | Seq regex regex
  | Alt regex regex
  | Opt regex
  | Rep "citem list" nat "nat option"
  | Grp nat regex

type_synonym mstate = "string \<times> string \<times> (nat \<rightharpoonup> string)"

definition at_boundary :: "string \<Rightarrow> string \<Rightarrow> bool" where
  "at_boundary bef aft =
     ((case bef of [] \<Rightarrow> False | b # _ \<Rightarrow> is_word b) \<noteq>
      (case aft of [] \<Rightarrow> False | a # _ \<Rightarrow> is_word a))"

definition run_length :: "citem list \<Rightarrow> nat option \<Rightarrow> string \<Rightarrow> nat" where
  "run_length cl mx aft =
     (let n = length (takeWhile (in_class cl) aft)
      in case mx of None \<Rightarrow> n | Some m \<Rightarrow> min m n)"

fun rmatch :: "regex \<Rightarrow> mstate \<Rightarrow> mstate list" where
  "rmatch (Lit s) (bef, aft, caps) =
     (if is_prefix s aft then [(rev s @ bef, drop (length s) aft, caps)] else [])"
| "rmatch (Cls cl) (bef, aft, caps) =
     (case aft of [] \<Rightarrow> []
      | a # as \<Rightarrow> if in_class cl a then [(a # bef, as, caps)] else [])"
| "rmatch WordB (bef, aft, caps) = (if at_boundary bef aft then [(bef, aft, caps)] else [])"
| "rmatch (Seq r1 r2) st = concat (map (rmatch r2) (rmatch r1 st))"
| "rmatch (Alt r1 r2) st = rmatch r1 st @ rmatch r2 st"
| "rmatch (Opt r) st = rmatch r st @ [st]"
| "rmatch (Rep cl mn mx) (bef, aft, caps) =
     map (\<lambda>n. (rev (take n aft) @ bef, drop n aft, caps))
       (rev [mn..<Suc (run_length cl mx aft)])"
| "rmatch (Grp i r) (bef, aft, caps) =
     map (\<lambda>(bef', aft', caps').
            (bef', aft', caps'(i \<mapsto> rev (take (length bef' - length bef) bef'))))
       (rmatch r (bef, aft, caps))"

text \<open>A match object: the text matched and the groups that took part.\<close>

record rematch =
  whole :: string
  groups :: "nat \<rightharpoonup> string"

text \<open>
  The scan of \<open>re.finditer\<close>: the leftmost match, then on from its end. A match that
  consumed nothing steps one character (no pattern of the program matches the empty
  string).
\<close>

function finditer_from :: "regex \<Rightarrow> string \<Rightarrow> string \<Rightarrow> rematch list" where
  "finditer_from r bef aft =
     (case rmatch r (bef, aft, Map.empty) of
        [] \<Rightarrow> (case aft of [] \<Rightarrow> [] | a # as \<Rightarrow> finditer_from r (a # bef) as)
      | (bef', aft', caps) # _ \<Rightarrow>
          \<lparr>whole = take (length aft - length aft') aft, groups = caps\<rparr> #
          (if length aft' < length aft then finditer_from r bef' aft'
           else (case aft of [] \<Rightarrow> [] | a # as \<Rightarrow> finditer_from r (a # bef) as)))"
  by pat_completeness auto
termination
  by (relation "measure (\<lambda>(r, bef, aft). length aft)") auto

definition re_finditer :: "regex \<Rightarrow> string \<Rightarrow> rematch list" where
  "re_finditer r s = finditer_from r [] s"

fun group_count :: "regex \<Rightarrow> nat" where
  "group_count (Seq r1 r2) = group_count r1 + group_count r2"
| "group_count (Alt r1 r2) = group_count r1 + group_count r2"
| "group_count (Opt r) = group_count r"
| "group_count (Grp i r) = Suc (group_count r)"
| "group_count r = 0"

text \<open>\<open>m.group(i)\<close> as \<open>re.findall\<close> reads it: a group that took no part gives \<open>''\<close>.\<close>

definition group_str :: "rematch \<Rightarrow> nat \<Rightarrow> string" where
  "group_str m i = (case groups m i of None \<Rightarrow> [] | Some g \<Rightarrow> g)"

text \<open>
  \<open>re.findall\<close>: the matched texts for a pattern without a group, the texts of group 1
  for a pattern with one group (no pattern of the program has more).
\<close>

definition re_findall :: "regex \<Rightarrow> string \<Rightarrow> string list" where
  "re_findall r s =
     map (\<lambda>m. if group_count r = 0 then whole m else group_str m 1) (re_finditer r s)"

text \<open>\<open>re.search\<close>, read as a truth value: some position starts a match.\<close>

fun search_from :: "regex \<Rightarrow> string \<Rightarrow> string \<Rightarrow> bool" where
  "search_from r bef [] = (rmatch r (bef, [], Map.empty) \<noteq> [])"
| "search_from r bef (a # as) =
     (rmatch r (bef, a # as, Map.empty) \<noteq> [] \<or> search_from r (a # bef) as)"

definition re_search :: "regex \<Rightarrow> string \<Rightarrow> bool" where
  "re_search r s = search_from r [] s"

subsection \<open>The report\<close>

record keyword_score =
  coverage_percentage :: real
  found_keywords :: "string list"
  missing_keywords :: "string list"

record contact =
  email :: "string option"
  phone :: "string option"

text \<open>
  The dictionary \<open>analysis\<close>: \<open>report\<close> holds the keys set before the score is
  computed, \<open>analysis\<close> adds \<open>overall_score\<close>. Dictionaries keep insertion order, so
  \<open>keyword_scores\<close> is an association list.
\<close>

record report =
  word_count :: nat
  sections_found :: "string list"
  missing_sections :: "string list"
  keyword_scores :: "(string \<times> keyword_score) list"
  contact_info :: contact

record analysis = report +
  overall_score :: real

text \<open>Python's truth value of an optional string: \<open>None\<close> and \<open>''\<close> are false.\<close>

definition truthy :: "string option \<Rightarrow> bool" where
  "truthy v = (case v of None \<Rightarrow> False | Some s \<Rightarrow> s \<noteq> [])"

subsection \<open>ResumeAnalyzer\<close>

definition keyword_categories :: "(string \<times> string list) list" where
  "keyword_categories =
     [(''technical_skills'',
         [''python'', ''java'', ''javascript'', ''sql'', ''html'', ''css'', ''react'', ''git'',
          ''aws'']),
      (''soft_skills'',
         [''communication'', ''leadership'', ''teamwork'', ''problem solving'',
          ''time management'']),
      (''action_verbs'',
         [''developed'', ''managed'', ''implemented'', ''created'', ''led'', ''analyzed''])]"

definition section_patterns :: "(string \<times> regex) list" where
  "section_patterns =
     [(''contact_info'',
         Grp 1 (Alt (Lit ''contact'') (Alt (Lit ''phone'') (Alt (Lit ''email'') (Lit ''address''))))),
      (''experience'',
         Grp 1 (Alt (Lit ''experience'') (Alt (Lit ''work history'') (Lit ''employment'')))),
      (''education'', Grp 1 (Alt (Lit ''education'') (Lit ''academic''))),
      (''skills'', Grp 1 (Alt (Lit ''skills'') (Lit ''technical skills''))),
      (''projects'', Grp 1 (Alt (Lit ''projects'') (Lit ''portfolio'')))]"

definition detect_sections :: "string \<Rightarrow> string list" where
  "detect_sections text =
     (let text_lower = lower text
      in fold (\<lambda>(section, pattern) sections.
                 if re_search pattern text_lower then sections @ [section] else sections)
           section_patterns [])"

definition important_sections :: "string list" where
  "important_sections = [''contact_info'', ''experience'', ''education'', ''skills'']"

definition find_missing_sections :: "string list \<Rightarrow> string list" where
  "find_missing_sections found_sections =
     filter (\<lambda>section. section \<notin> set found_sections) important_sections"

text \<open>The body of the loop of \<open>analyze_keywords\<close>: the entry of one category.\<close>

definition category_score :: "string \<Rightarrow> string list \<Rightarrow> keyword_score" where
  "category_score text_lower keywords =
     (let found = filter (contains text_lower) keywords;
          coverage = (if keywords \<noteq> []
                      then real (length found) / real (length keywords) * 100 else 0)
      in \<lparr>coverage_percentage = py_round coverage 2,
          found_keywords = found,
          missing_keywords = filter (\<lambda>kw. kw \<notin> set found) keywords\<rparr>)"

definition analyze_keywords :: "string \<Rightarrow> (string \<times> keyword_score) list" where
  "analyze_keywords text =
     (let text_lower = lower text
      in fold (\<lambda>(category, keywords) scores.
                 AList.update category (category_score text_lower keywords) scores)
           keyword_categories [])"

text \<open>
  The email pattern: a word boundary, one or more of \<open>[A-Za-z0-9._%+-]\<close>, an at sign,
  one or more of \<open>[A-Za-z0-9.-]\<close>, a dot, two or more of \<open>[A-Z|a-z]\<close>, a word
  boundary.
\<close>

definition email_pattern :: regex where
  "email_pattern =
     Seq WordB
    (Seq (Rep [Between CHR ''A'' CHR ''Z'', Between CHR ''a'' CHR ''z'', Between CHR ''0'' CHR ''9'',
               Single CHR ''.'', Single CHR ''_'', Single CHR ''%'', Single CHR ''+'', Single CHR ''-''] 1 None)
    (Seq (Lit ''@'')
    (Seq (Rep [Between CHR ''A'' CHR ''Z'', Between CHR ''a'' CHR ''z'', Between CHR ''0'' CHR ''9'',
               Single CHR ''.'', Single CHR ''-''] 1 None)
    (Seq (Lit ''.'')
    (Seq (Rep [Between CHR ''A'' CHR ''Z'', Single CHR ''|'', Between CHR ''a'' CHR ''z''] 2 None)
         WordB)))))"

text \<open>The class of a hyphen, a dot or a whitespace character.\<close>

definition separator :: "citem list" where
  "separator = [Single CHR ''-'', Single CHR ''.'', Space]"

text \<open>
  The phone pattern: an optional group 1 (an optional plus sign, one to three digits, an
  optional separator), then an optional opening parenthesis, three digits, an optional
  closing parenthesis, an optional separator, three digits, an optional separator, four
  digits.
\<close>

definition phone_pattern :: regex where
  "phone_pattern =
     Seq (Opt (Grp 1 (Seq (Opt (Lit ''+'')) (Seq (Rep [Digit] 1 (Some 3)) (Opt (Cls separator))))))
    (Seq (Opt (Lit ''(''))
    (Seq (Rep [Digit] 3 (Some 3))
    (Seq (Opt (Lit '')''))
    (Seq (Opt (Cls separator))
    (Seq (Rep [Digit] 3 (Some 3))
    (Seq (Opt (Cls separator))
         (Rep [Digit] 4 (Some 4))))))))"

text \<open>\<open>xs[0] if xs else None\<close>.\<close>

definition first_or_none :: "string list \<Rightarrow> string option" where
  "first_or_none xs = (case xs of [] \<Rightarrow> None | x # _ \<Rightarrow> Some x)"

definition extract_contact_info :: "string \<Rightarrow> contact" where
  "extract_contact_info text =
     (let emails = re_findall email_pattern text;
          phones = re_findall phone_pattern text
      in \<lparr>email = first_or_none emails, phone = first_or_none phones\<rparr>)"

text \<open>The three summands of \<open>calculate_overall_score\<close>.\<close>

definition section_score :: "'a report_scheme \<Rightarrow> real" where
  "section_score a = real (length (sections_found a)) / 5 * 30"

definition keyword_score_sum :: "'a report_scheme \<Rightarrow> real" where
  "keyword_score_sum a =
     sum_list (map (\<lambda>(category, cat). coverage_percentage cat) (keyword_scores a)) / 3 * (4 / 10)"

definition contact_score :: "'a report_scheme \<Rightarrow> real" where
  "contact_score a =
     (if truthy (email (contact_info a)) \<or> truthy (phone (contact_info a)) then 10 else 0)"

definition calculate_overall_score :: "'a report_scheme \<Rightarrow> real" where
  "calculate_overall_score a =
     (let score = section_score a;
          score = score + keyword_score_sum a;
          score = score + contact_score a
      in py_round (min 100 score) 2)"

definition analyze_resume_content :: "string \<Rightarrow> analysis" where
  "analyze_resume_content text =
     (let sections = detect_sections text;
          a = \<lparr>word_count = length (py_split text),
               sections_found = sections,
               missing_sections = find_missing_sections sections,
               keyword_scores = analyze_keywords text,
               contact_info = extract_contact_info text\<rparr>
      in \<lparr>word_count = word_count a,
          sections_found = sections_found a,
          missing_sections = missing_sections a,
          keyword_scores = keyword_scores a,
          contact_info = contact_info a,
          overall_score = calculate_overall_score a\<rparr>)"

definition quote :: string where
  "quote = [CHR 0x27]"

definition generate_recommendations :: "'a report_scheme \<Rightarrow> string list" where
  "generate_recommendations a =
     (let recommendations = [];
          recommendations =
            fold (\<lambda>missing_section recs.
                    recs @ [''Add '' @ quote @ title (replace_char CHR ''_'' CHR '' '' missing_section)
                            @ quote @ '' section''])
              (missing_sections a) recommendations;
          recommendations =
            fold (\<lambda>(category, score) recs.
                    if coverage_percentage score < 50
                    then (let missing = join '', '' (take 3 (missing_keywords score))
                          in recs @ [''Add more '' @ replace_char CHR ''_'' CHR '' '' category
                                     @ '' like: '' @ missing])
                    else recs)
              (keyword_scores a) recommendations;
          recommendations =
            (if \<not> truthy (email (contact_info a))
             then recommendations @ [''Add professional email address''] else recommendations);
          recommendations =
            (if \<not> truthy (phone (contact_info a))
             then recommendations @ [''Add phone number''] else recommendations)
      in recommendations)"


subsection \<open>The scenario of the specification\<close>

definition scenario_text :: string where
  "scenario_text =
     ''I have experience in Python and SQL. Contact: jane@example.com, 555-123-4567.''"

section \<open>Properties\<close>

subsection \<open>Loops as list functions\<close>

lemma detect_fold:
  "fold (\<lambda>(section, pattern) sections.
           if re_search pattern t then sections @ [section] else sections) ps acc
   = acc @ map fst (filter (\<lambda>(section, pattern). re_search pattern t) ps)"
  by (induction ps arbitrary: acc) auto

lemma detect_sections_filter:
  "detect_sections text =
     map fst (filter (\<lambda>(section, pattern). re_search pattern (lower text)) section_patterns)"
  unfolding detect_sections_def Let_def detect_fold by simp

lemma analysis_fields:
  "sections_found (analyze_resume_content text) = detect_sections text"
  "missing_sections (analyze_resume_content text) = find_missing_sections (detect_sections text)"
  "keyword_scores (analyze_resume_content text) = analyze_keywords text"
  "contact_info (analyze_resume_content text) = extract_contact_info text"
  "word_count (analyze_resume_content text) = length (py_split text)"
  by (simp_all add: analyze_resume_content_def Let_def)

lemma fold_missing_lines:
  "fold (\<lambda>missing_section recs. recs @ [f missing_section]) xs acc = acc @ map f xs"
  by (induction xs arbitrary: acc) simp_all

lemma fold_keyword_lines:
  "fold (\<lambda>(category, score) recs.
           if coverage_percentage score < 50 then recs @ [g category score] else recs) xs acc
   = acc @ map (\<lambda>(category, score). g category score)
             (filter (\<lambda>(category, score). coverage_percentage score < 50) xs)"
  by (induction xs arbitrary: acc) (simp_all add: case_prod_beta)

lemma analyze_keywords_entries:
  "analyze_keywords text =
     map (\<lambda>(category, keywords). (category, category_score (lower text) keywords))
       keyword_categories"
  by (simp add: analyze_keywords_def keyword_categories_def Let_def)

lemma category_score_partition:
  assumes "distinct keywords"
  shows "set (found_keywords (category_score t keywords))
           \<inter> set (missing_keywords (category_score t keywords)) = {}"
    and "distinct (found_keywords (category_score t keywords))"
    and "distinct (missing_keywords (category_score t keywords))"
    and "set (found_keywords (category_score t keywords))
           \<union> set (missing_keywords (category_score t keywords)) = set keywords"
  using assms by (auto simp: category_score_def Let_def)

lemma category_score_coverage:
  "keywords \<noteq> [] \<Longrightarrow>
   coverage_percentage (category_score t keywords) =
     py_round (real (length (found_keywords (category_score t keywords)))
               / real (length keywords) * 100) 2"
  by (simp add: category_score_def Let_def)

subsection \<open>Keyword lists\<close>

text \<open>
  C5. For every text and each of the three keyword categories, the entry of the category
  in the result of \<open>analyze_keywords\<close> has found and missing keyword lists that are
  disjoint, free of duplicates and together exactly the category's vocabulary, and its
  coverage percentage is the number of found keywords over the size of the vocabulary,
  times 100, rounded to 2 decimals.
\<close>

theorem keyword_lists_partition:
  "\<forall>(category, keywords) \<in> set keyword_categories.
     \<exists>sc. map_of (analyze_keywords text) category = Some sc
        \<and> set (found_keywords sc) \<inter> set (missing_keywords sc) = {}
        \<and> distinct (found_keywords sc) \<and> distinct (missing_keywords sc)
        \<and> set (found_keywords sc) \<union> set (missing_keywords sc) = set keywords
        \<and> coverage_percentage sc =
            py_round (real (length (found_keywords sc)) / real (length keywords) * 100) 2"
proof -
  have d: "\<forall>(category, keywords) \<in> set keyword_categories. distinct keywords \<and> keywords \<noteq> []"
    by (simp add: keyword_categories_def)
  have m: "\<forall>(category, keywords) \<in> set keyword_categories.
      map_of (analyze_keywords text) category = Some (category_score (lower text) keywords)"
    unfolding analyze_keywords_entries by (simp add: keyword_categories_def)
  show ?thesis
  proof (rule ballI, clarify)
    fix category kws
    assume mem: "(category, kws) \<in> set keyword_categories"
    from d mem have dk: "distinct kws" and ne: "kws \<noteq> []" by auto
    from m mem have
      "map_of (analyze_keywords text) category = Some (category_score (lower text) kws)"
      by auto
    with category_score_partition[OF dk, of "lower text"]
      category_score_coverage[OF ne, of "lower text"]
    show "\<exists>sc. map_of (analyze_keywords text) category = Some sc
        \<and> set (found_keywords sc) \<inter> set (missing_keywords sc) = {}
        \<and> distinct (found_keywords sc) \<and> distinct (missing_keywords sc)
        \<and> set (found_keywords sc) \<union> set (missing_keywords sc) = set kws
        \<and> coverage_percentage sc =
            py_round (real (length (found_keywords sc)) / real (length kws) * 100) 2"
      by simp
  qed
qed

theorem keyword_lists_partition_witness:
  "\<exists>sc. map_of (analyze_keywords ''Led a team; created SQL reports'') ''action_verbs'' = Some sc
      \<and> set (found_keywords sc) \<inter> set (missing_keywords sc) = {}
      \<and> distinct (found_keywords sc) \<and> distinct (missing_keywords sc)
      \<and> set (found_keywords sc) \<union> set (missing_keywords sc) =
          set [''developed'', ''managed'', ''implemented'', ''created'', ''led'', ''analyzed'']
      \<and> coverage_percentage sc = py_round (real (length (found_keywords sc)) / real 6 * 100) 2"
  using keyword_lists_partition[of "''Led a team; created SQL reports''"]
  by (simp add: keyword_categories_def)

subsection \<open>Sections\<close>

text \<open>
  C6. For every text, the detected sections and the missing sections of the report are
  disjoint, the detected important sections together with the missing ones are exactly
  the important vocabulary, and the missing sections are the four important tags
  (contact\_info, experience, education, skills; not projects) without the detected ones.
\<close>

theorem missing_sections_partition:
  "set (sections_found (analyze_resume_content text))
     \<inter> set (missing_sections (analyze_resume_content text)) = {}
   \<and> (set (sections_found (analyze_resume_content text)) \<inter> set important_sections)
       \<union> set (missing_sections (analyze_resume_content text)) = set important_sections
   \<and> missing_sections (analyze_resume_content text) =
       filter (\<lambda>section. section \<notin> set (sections_found (analyze_resume_content text)))
         [''contact_info'', ''experience'', ''education'', ''skills'']
   \<and> set important_sections = {''contact_info'', ''experience'', ''education'', ''skills''}
   \<and> ''projects'' \<notin> set important_sections"
proof -
  let ?found = "detect_sections text"
  have disjoint: "set ?found \<inter> set (find_missing_sections ?found) = {}"
    by (auto simp: find_missing_sections_def)
  have cover: "(set ?found \<inter> set important_sections) \<union> set (find_missing_sections ?found)
      = set important_sections"
    by (auto simp: find_missing_sections_def)
  have missing: "find_missing_sections ?found =
      filter (\<lambda>section. section \<notin> set ?found)
        [''contact_info'', ''experience'', ''education'', ''skills'']"
    by (simp only: find_missing_sections_def important_sections_def)
  have important:
    "set important_sections = {''contact_info'', ''experience'', ''education'', ''skills''}"
    by (simp add: important_sections_def)
  have projects: "''projects'' \<notin> set important_sections"
    by (simp add: important_sections_def)
  show ?thesis
    unfolding analysis_fields
    by (intro conjI disjoint cover missing important projects)
qed

subsection \<open>Recommendations\<close>

text \<open>
  C7. For every report, the recommendations are exactly: one line
  \<open>Add '<Section Title>' section\<close> per missing section, in the order of the list (the
  tag with underscores replaced by spaces, title-cased); then, for each keyword category
  with coverage below 50, in the order of the entries, one line naming the first three (or
  fewer) of its missing keywords; then one line if the email is absent; then one line if
  the phone is absent. In a report made by \<open>analyze_resume_content\<close> the missing sections
  stand in the order of the vocabulary and the categories in the order of their
  declaration.
\<close>

theorem recommendations_form:
  "generate_recommendations a =
     map (\<lambda>missing_section.
            ''Add '' @ quote @ title (replace_char CHR ''_'' CHR '' '' missing_section)
            @ quote @ '' section'')
       (missing_sections a)
     @ map (\<lambda>(category, score).
              ''Add more '' @ replace_char CHR ''_'' CHR '' '' category @ '' like: ''
              @ join '', '' (take 3 (missing_keywords score)))
         (filter (\<lambda>(category, score). coverage_percentage score < 50) (keyword_scores a))
     @ (if truthy (email (contact_info a)) then [] else [''Add professional email address''])
     @ (if truthy (phone (contact_info a)) then [] else [''Add phone number''])
   \<and> missing_sections (analyze_resume_content text) =
       filter (\<lambda>section. section \<notin> set (sections_found (analyze_resume_content text)))
         important_sections
   \<and> map fst (keyword_scores (analyze_resume_content text)) =
       [''technical_skills'', ''soft_skills'', ''action_verbs'']"
proof (intro conjI)
  show "generate_recommendations a =
     map (\<lambda>missing_section.
            ''Add '' @ quote @ title (replace_char CHR ''_'' CHR '' '' missing_section)
            @ quote @ '' section'')
       (missing_sections a)
     @ map (\<lambda>(category, score).
              ''Add more '' @ replace_char CHR ''_'' CHR '' '' category @ '' like: ''
              @ join '', '' (take 3 (missing_keywords score)))
         (filter (\<lambda>(category, score). coverage_percentage score < 50) (keyword_scores a))
     @ (if truthy (email (contact_info a)) then [] else [''Add professional email address''])
     @ (if truthy (phone (contact_info a)) then [] else [''Add phone number''])"
    unfolding generate_recommendations_def Let_def fold_missing_lines fold_keyword_lines
    by simp
  show "missing_sections (analyze_resume_content text) =
       filter (\<lambda>section. section \<notin> set (sections_found (analyze_resume_content text)))
         important_sections"
    by (simp only: analysis_fields find_missing_sections_def)
  show "map fst (keyword_scores (analyze_resume_content text)) =
       [''technical_skills'', ''soft_skills'', ''action_verbs'']"
    by (simp add: analysis_fields analyze_keywords_entries keyword_categories_def)
qed

text \<open>
  C8. A report with no missing section, coverage 100 in every keyword category and both
  contact fields present gets no recommendation.
\<close>

theorem no_recommendations_when_complete:
  assumes "missing_sections a = []"
    and "\<forall>(category, score) \<in> set (keyword_scores a). coverage_percentage score = 100"
    and "truthy (email (contact_info a))"
    and "truthy (phone (contact_info a))"
  shows "generate_recommendations a = []"
proof -
  have "filter (\<lambda>(category, score). coverage_percentage score < 50) (keyword_scores a) = []"
    using assms(2) by (auto simp: filter_empty_conv)
  with assms(1,3,4) show ?thesis
    unfolding generate_recommendations_def Let_def fold_missing_lines fold_keyword_lines
    by simp
qed

theorem no_recommendations_when_complete_witness:
  "generate_recommendations
     \<lparr>word_count = 2,
      sections_found = [''contact_info'', ''experience'', ''education'', ''skills''],
      missing_sections = [],
      keyword_scores =
        [(''technical_skills'',
            \<lparr>coverage_percentage = 100, found_keywords = [''python''], missing_keywords = []\<rparr>),
         (''soft_skills'',
            \<lparr>coverage_percentage = 100, found_keywords = [''teamwork''], missing_keywords = []\<rparr>),
         (''action_verbs'',
            \<lparr>coverage_percentage = 100, found_keywords = [''led''], missing_keywords = []\<rparr>)],
      contact_info = \<lparr>email = Some ''jane@example.com'', phone = Some ''+1 ''\<rparr>\<rparr> = []"
  by (rule no_recommendations_when_complete) (simp_all add: truthy_def)

subsection \<open>Rounding stays within integer bounds\<close>

lemma round_half_even_lower: "of_int n \<le> y \<Longrightarrow> n \<le> round_half_even y"
proof -
  assume "of_int n \<le> y"
  then have "n \<le> \<lfloor>y\<rfloor>" by (simp add: le_floor_iff)
  then show ?thesis by (simp add: round_half_even_def Let_def)
qed

lemma round_half_even_upper: "y \<le> of_int n \<Longrightarrow> round_half_even y \<le> n"
proof -
  assume le: "y \<le> of_int n"
  then have fl: "\<lfloor>y\<rfloor> \<le> n" by (simp add: floor_le_iff)
  show ?thesis
  proof (cases "\<lfloor>y\<rfloor> = n")
    case True
    with le have "y - of_int \<lfloor>y\<rfloor> \<le> 0" by simp
    then have "y - of_int \<lfloor>y\<rfloor> < 1 / 2" by linarith
    with True show ?thesis by (simp add: round_half_even_def Let_def)
  next
    case False
    with fl have "\<lfloor>y\<rfloor> + 1 \<le> n" by simp
    with fl show ?thesis by (simp add: round_half_even_def Let_def)
  qed
qed

lemma py_round_nonneg: "0 \<le> x \<Longrightarrow> 0 \<le> py_round x 2"
proof -
  assume "0 \<le> x"
  then have "of_int 0 \<le> x * 10 ^ 2" by simp
  then have "0 \<le> round_half_even (x * 10 ^ 2)" by (rule round_half_even_lower)
  then show ?thesis by (simp add: py_round_def)
qed

lemma py_round_le_100: "x \<le> 100 \<Longrightarrow> py_round x 2 \<le> 100"
proof -
  assume "x \<le> 100"
  then have "x * 10 ^ 2 \<le> of_int 10000" by simp
  then have "round_half_even (x * 10 ^ 2) \<le> 10000" by (rule round_half_even_upper)
  then have "real_of_int (round_half_even (x * 10 ^ 2)) \<le> 10000" by linarith
  then show ?thesis by (simp add: py_round_def)
qed

lemma coverage_nonneg: "0 \<le> coverage_percentage (category_score t keywords)"
  by (simp add: category_score_def Let_def py_round_nonneg)

lemma keyword_sum_nonneg:
  "0 \<le> sum_list (map (\<lambda>(category, cat). coverage_percentage cat) (analyze_keywords text))"
  by (simp add: analyze_keywords_entries keyword_categories_def coverage_nonneg)

subsection \<open>Overall score\<close>

lemma overall_score_unfold:
  "overall_score (analyze_resume_content text) =
     py_round (min 100
       (real (length (detect_sections text)) / 5 * 30
        + sum_list (map (\<lambda>(category, cat). coverage_percentage cat) (analyze_keywords text))
            / 3 * (4 / 10)
        + (if truthy (email (extract_contact_info text)) \<or> truthy (phone (extract_contact_info text))
           then 10 else 0))) 2"
  by (simp add: analyze_resume_content_def calculate_overall_score_def section_score_def
      keyword_score_sum_def contact_score_def Let_def)

text \<open>
  C1. For every text, the overall score is the number of detected sections over 5 times 30,
  plus the mean of the three coverage percentages times 0.4, plus 10 if the email or the
  phone field is non-empty, clamped to the interval from 0 to 100 and rounded to 2
  decimals. (The code takes only the minimum with 100; the sum is never negative.)
\<close>

theorem overall_score_formula:
  "overall_score (analyze_resume_content text) =
     py_round (max 0 (min 100
       (real (length (sections_found (analyze_resume_content text))) / 5 * 30
        + sum_list (map (\<lambda>(category, cat). coverage_percentage cat)
                      (keyword_scores (analyze_resume_content text))) / 3 * (4 / 10)
        + (if truthy (email (contact_info (analyze_resume_content text)))
              \<or> truthy (phone (contact_info (analyze_resume_content text)))
           then 10 else 0)))) 2
   \<and> length (keyword_scores (analyze_resume_content text)) = 3"
proof -
  let ?raw = "real (length (detect_sections text)) / 5 * 30
        + sum_list (map (\<lambda>(category, cat). coverage_percentage cat) (analyze_keywords text))
            / 3 * (4 / 10)
        + (if truthy (email (extract_contact_info text)) \<or> truthy (phone (extract_contact_info text))
           then 10 else 0)"
  have "0 \<le> ?raw"
    using keyword_sum_nonneg[of "text"] by simp
  then have "max 0 (min 100 ?raw) = min 100 ?raw" by simp
  moreover have "length (analyze_keywords text) = 3"
    by (simp add: analyze_keywords_entries keyword_categories_def)
  ultimately show ?thesis
    by (simp only: analysis_fields overall_score_unfold)
qed

text \<open>
  C4. For every text, the empty one included, the overall score lies between 0 and 100.
\<close>

theorem overall_score_bounds:
  "0 \<le> overall_score (analyze_resume_content text)
   \<and> overall_score (analyze_resume_content text) \<le> 100"
proof -
  let ?raw = "real (length (detect_sections text)) / 5 * 30
        + sum_list (map (\<lambda>(category, cat). coverage_percentage cat) (analyze_keywords text))
            / 3 * (4 / 10)
        + (if truthy (email (extract_contact_info text)) \<or> truthy (phone (extract_contact_info text))
           then 10 else 0)"
  have "0 \<le> ?raw"
    using keyword_sum_nonneg[of "text"] by simp
  then have "0 \<le> min 100 ?raw" by simp
  then have lo: "0 \<le> py_round (min 100 ?raw) 2" by (rule py_round_nonneg)
  have "min 100 ?raw \<le> 100" by simp
  then have hi: "py_round (min 100 ?raw) 2 \<le> 100" by (rule py_round_le_100)
  from lo hi show ?thesis by (simp only: overall_score_unfold)
qed

text \<open>
  C9. The report of the empty text: no word, no section detected, coverage 0 in the three
  categories, the four important tags missing, no email, no phone, overall score 0.
\<close>

theorem empty_text_report:
  "word_count (analyze_resume_content '''') = 0
   \<and> sections_found (analyze_resume_content '''') = []
   \<and> map (\<lambda>(category, cat). (category, coverage_percentage cat))
         (keyword_scores (analyze_resume_content '''')) =
       [(''technical_skills'', 0), (''soft_skills'', 0), (''action_verbs'', 0)]
   \<and> missing_sections (analyze_resume_content '''') =
       [''contact_info'', ''experience'', ''education'', ''skills'']
   \<and> email (contact_info (analyze_resume_content '''')) = None
   \<and> phone (contact_info (analyze_resume_content '''')) = None
   \<and> overall_score (analyze_resume_content '''') = 0"
  by code_simp

subsection \<open>Contact extraction\<close>

lemma contact_fields:
  "email (extract_contact_info text) = first_or_none (re_findall email_pattern text)"
  "phone (extract_contact_info text) = first_or_none (re_findall phone_pattern text)"
  by (simp_all add: extract_contact_info_def Let_def)

lemma findall_phone_group:
  "re_findall phone_pattern text =
     map (\<lambda>(w, g). case g of None \<Rightarrow> [] | Some s \<Rightarrow> s)
       (map (\<lambda>m. (whole m, groups m 1)) (re_finditer phone_pattern text))"
  by (simp add: re_findall_def phone_pattern_def group_str_def)

lemma whole_of_pairs:
  "map whole (re_finditer r t) = map fst (map (\<lambda>m. (whole m, groups m 1)) (re_finditer r t))"
  by (simp add: comp_def)

text \<open>The email pattern has no group, so the email field is the first whole match.\<close>

lemma email_is_first_match:
  "email (extract_contact_info text) = first_or_none (map whole (re_finditer email_pattern text))"
  by (simp add: contact_fields re_findall_def email_pattern_def)

lemma phone_is_first_group:
  "phone (extract_contact_info text) =
     first_or_none (map (\<lambda>m. group_str m 1) (re_finditer phone_pattern text))"
  by (simp add: contact_fields re_findall_def phone_pattern_def)

lemma prefixed_phones:
  "map (\<lambda>m. (whole m, groups m 1)) (re_finditer phone_pattern ''+1 (555) 123-4567'')
   = [(''+1 (555) 123-4567'', Some ''+1 '')]"
  by code_simp

lemma bare_phones:
  "map (\<lambda>m. (whole m, groups m 1)) (re_finditer phone_pattern ''Call 555-123-4567 today'')
   = [(''555-123-4567'', None)]"
  by code_simp

text \<open>
  C2. Stated: the phone field is the first match of the phone pattern. The code takes
  the first element of \<open>re.findall\<close>, which for a pattern with a group is the text of the
  group: in \<open>+1 (555) 123-4567\<close> the first match is the whole number and the field is the
  prefix \<open>+1 \<close>; in \<open>Call 555-123-4567 today\<close> the first match is \<open>555-123-4567\<close> and
  the field is the empty string.
\<close>

theorem phone_is_group_not_match:
  "first_or_none (map whole (re_finditer phone_pattern ''+1 (555) 123-4567''))
     = Some ''+1 (555) 123-4567''
   \<and> phone (extract_contact_info ''+1 (555) 123-4567'') = Some ''+1 ''
   \<and> first_or_none (map whole (re_finditer phone_pattern ''Call 555-123-4567 today''))
     = Some ''555-123-4567''
   \<and> phone (extract_contact_info ''Call 555-123-4567 today'') = Some ''''"
  unfolding whole_of_pairs contact_fields findall_phone_group prefixed_phones bare_phones
  by (simp add: first_or_none_def)

lemma scenario_sections: "detect_sections scenario_text = [''contact_info'', ''experience'']"
  by code_simp

lemma scenario_emails: "re_findall email_pattern scenario_text = [''jane@example.com'']"
  by code_simp

lemma scenario_phones:
  "map (\<lambda>m. (whole m, groups m 1)) (re_finditer phone_pattern scenario_text)
   = [(''555-123-4567'', None)]"
  by code_simp

text \<open>
  C3. On the scenario text the detected sections are contact\_info and experience and the
  email is \<open>jane@example.com\<close>, as stated; the phone pattern matches \<open>555-123-4567\<close>,
  but the phone field of the report is the empty string, not that match.
\<close>

theorem scenario_phone_is_empty:
  "sections_found (analyze_resume_content scenario_text) = [''contact_info'', ''experience'']
   \<and> email (contact_info (analyze_resume_content scenario_text)) = Some ''jane@example.com''
   \<and> map whole (re_finditer phone_pattern scenario_text) = [''555-123-4567'']
   \<and> phone (contact_info (analyze_resume_content scenario_text)) = Some ''''"
proof (intro conjI)
  show "sections_found (analyze_resume_content scenario_text) = [''contact_info'', ''experience'']"
    by (simp only: analysis_fields scenario_sections)
  show "email (contact_info (analyze_resume_content scenario_text)) = Some ''jane@example.com''"
    unfolding analysis_fields contact_fields scenario_emails by (simp add: first_or_none_def)
  show "map whole (re_finditer phone_pattern scenario_text) = [''555-123-4567'']"
    unfolding whole_of_pairs scenario_phones by simp
  show "phone (contact_info (analyze_resume_content scenario_text)) = Some ''''"
    unfolding analysis_fields contact_fields findall_phone_group scenario_phones
    by (simp add: first_or_none_def)
qed

text \<open>
  The separator class and the word boundary above ASCII: a no-break space after the
  country code is a separator, so the group takes part and the phone field is the prefix;
  in \<open>na\<close>, U+00EF, \<open>ve@example.com\<close> no word boundary stands before \<open>ve\<close>, so the
  text has no email match and its number is bare.
\<close>

lemma no_break_space_prefix:
  "re_findall email_pattern (''+1'' @ [CHR 0xA0] @ ''555-123-4567'') = []
   \<and> map (\<lambda>m. (whole m, groups m 1))
         (re_finditer phone_pattern (''+1'' @ [CHR 0xA0] @ ''555-123-4567''))
       = [(''+1'' @ [CHR 0xA0] @ ''555-123-4567'', Some (''+1'' @ [CHR 0xA0]))]"
  by code_simp

lemma letter_before_local_part:
  "re_findall email_pattern (''na'' @ [CHR 0xEF] @ ''ve@example.com 555-123-4567'') = []
   \<and> map (\<lambda>m. (whole m, groups m 1))
         (re_finditer phone_pattern (''na'' @ [CHR 0xEF] @ ''ve@example.com 555-123-4567''))
       = [(''555-123-4567'', None)]"
  by code_simp

text \<open>
  C10. For every text without an email match whose one occurrence of the phone pattern is a
  bare number (group 1, the country-code prefix, took no part in the match): the phone
  field is the empty string, the email field is \<open>None\<close>, the contact summand of the
  overall score is 0, and the recommendation \<open>Add phone number\<close> is emitted.
\<close>

theorem bare_phone_counts_as_absent:
  assumes "re_findall email_pattern text = []"
    and "map (\<lambda>m. (whole m, groups m 1)) (re_finditer phone_pattern text) = [(number, None)]"
  shows "contact_info (analyze_resume_content text) = \<lparr>email = None, phone = Some ''''\<rparr>
    \<and> contact_score (analyze_resume_content text) = 0
    \<and> overall_score (analyze_resume_content text) =
        py_round (min 100 (section_score (analyze_resume_content text)
                           + keyword_score_sum (analyze_resume_content text))) 2
    \<and> ''Add phone number'' \<in> set (generate_recommendations (analyze_resume_content text))"
proof -
  have c: "extract_contact_info text = \<lparr>email = None, phone = Some ''''\<rparr>"
    using assms
    by (simp add: extract_contact_info_def Let_def first_or_none_def findall_phone_group)
  show ?thesis
    by (simp add: analyze_resume_content_def Let_def c calculate_overall_score_def
        contact_score_def section_score_def keyword_score_sum_def truthy_def
        generate_recommendations_def)
qed

theorem bare_phone_counts_as_absent_witness:
  "contact_info (analyze_resume_content ''555-123-4567'') = \<lparr>email = None, phone = Some ''''\<rparr>
   \<and> contact_score (analyze_resume_content ''555-123-4567'') = 0
   \<and> ''Add phone number''
       \<in> set (generate_recommendations (analyze_resume_content ''555-123-4567''))"
proof -
  have e: "re_findall email_pattern ''555-123-4567'' = []"
    by code_simp
  have p: "map (\<lambda>m. (whole m, groups m 1)) (re_finditer phone_pattern ''555-123-4567'')
      = [(''555-123-4567'', None)]"
    by code_simp
  from bare_phone_counts_as_absent[OF e p] show ?thesis by simp
qed

subsection \<open>Bare numbers\<close>

text \<open>
  A text without an at sign has no email match, and a number of the form
  \<open>ddd-ddd-dddd\<close>, alone in the text, is matched by the phone pattern without its
  group: for every such text both contact fields are falsy.
\<close>

lemma lit_at_empty: "CHR ''@'' \<notin> set aft \<Longrightarrow> rmatch (Lit ''@'') (bef, aft, caps) = []"
  by (cases aft) auto

lemma seq_no_match:
  "(\<And>st'. st' \<in> set (rmatch r1 st) \<Longrightarrow> rmatch r2 st' = []) \<Longrightarrow> rmatch (Seq r1 r2) st = []"
  by simp

lemma wordb_state: "st' \<in> set (rmatch WordB (bef, aft, caps)) \<Longrightarrow> st' = (bef, aft, caps)"
  by (auto split: if_splits)

lemma rep_state:
  "st' \<in> set (rmatch (Rep cl mn mx) (bef, aft, caps)) \<Longrightarrow> \<exists>b n. st' = (b, drop n aft, caps)"
  by auto

lemma email_needs_at:
  assumes "CHR ''@'' \<notin> set aft"
  shows "rmatch email_pattern (bef, aft, caps) = []"
  unfolding email_pattern_def
proof (rule seq_no_match)
  fix st1
  let ?rest = "Seq (Lit ''.'')
         (Seq (Rep [Between CHR ''A'' CHR ''Z'', Single CHR ''|'', Between CHR ''a'' CHR ''z''] 2 None)
              WordB)"
  let ?domain = "Rep [Between CHR ''A'' CHR ''Z'', Between CHR ''a'' CHR ''z'',
      Between CHR ''0'' CHR ''9'', Single CHR ''.'', Single CHR ''-''] 1 None"
  let ?local = "Rep [Between CHR ''A'' CHR ''Z'', Between CHR ''a'' CHR ''z'',
      Between CHR ''0'' CHR ''9'', Single CHR ''.'', Single CHR ''_'', Single CHR ''%'',
      Single CHR ''+'', Single CHR ''-''] 1 None"
  assume "st1 \<in> set (rmatch WordB (bef, aft, caps))"
  then have st1: "st1 = (bef, aft, caps)" by (rule wordb_state)
  show "rmatch (Seq ?local (Seq (Lit ''@'') (Seq ?domain ?rest))) st1 = []"
  proof (rule seq_no_match)
    fix st2
    assume "st2 \<in> set (rmatch ?local st1)"
    then obtain b n where st2: "st2 = (b, drop n aft, caps)"
      unfolding st1 by (blast dest: rep_state)
    have "CHR ''@'' \<notin> set (drop n aft)"
      using assms by (auto dest: in_set_dropD)
    then have "rmatch (Lit ''@'') (b, drop n aft, caps) = []" by (rule lit_at_empty)
    then show "rmatch (Seq (Lit ''@'') (Seq ?domain ?rest)) st2 = []"
      unfolding st2 by (simp only: rmatch.simps) simp
  qed
qed

lemma finditer_from_no_match:
  "(\<And>b a. set a \<subseteq> set aft \<Longrightarrow> rmatch r (b, a, Map.empty) = [])
   \<Longrightarrow> finditer_from r bef aft = []"
proof (induction aft arbitrary: bef)
  case Nil
  then show ?case by (subst finditer_from.simps) simp
next
  case (Cons a as)
  have "rmatch r (bef, a # as, Map.empty) = []"
    by (rule Cons.prems) simp
  moreover have "finditer_from r (a # bef) as = []"
    by (rule Cons.IH, rule Cons.prems) auto
  ultimately show ?case by (subst finditer_from.simps) simp
qed

lemma no_at_no_email: "CHR ''@'' \<notin> set text \<Longrightarrow> re_findall email_pattern text = []"
proof -
  assume "CHR ''@'' \<notin> set text"
  then have "finditer_from email_pattern [] text = []"
    by (intro finditer_from_no_match email_needs_at) auto
  then show ?thesis by (simp add: re_findall_def re_finditer_def)
qed

lemma digit_facts:
  assumes "is_digit c"
  shows "in_class [Digit] c" "\<not> in_class separator c"
    "c \<noteq> CHR ''+''" "c \<noteq> CHR ''(''" "c \<noteq> CHR '')''" "c \<noteq> CHR ''-''"
    "CHR ''+'' \<noteq> c" "CHR ''('' \<noteq> c" "CHR '')'' \<noteq> c" "CHR ''-'' \<noteq> c"
  using assms
  by (auto simp: in_class_def separator_def is_space_def is_digit_def in_range_def code_point_def)

lemma digit_not_at: "is_digit c \<Longrightarrow> c \<noteq> CHR ''@''"
  by (auto simp: is_digit_def in_range_def code_point_def)

lemma hyphen_facts:
  "\<not> in_class [Digit] CHR ''-''" "in_class separator CHR ''-''"
  by (simp_all add: in_class_def separator_def is_digit_def in_range_def code_point_def)

lemma bare_number_phones:
  assumes "is_digit a1" "is_digit a2" "is_digit a3" "is_digit b1" "is_digit b2" "is_digit b3"
    "is_digit c1" "is_digit c2" "is_digit c3" "is_digit c4"
  shows "map (\<lambda>m. (whole m, groups m 1))
           (re_finditer phone_pattern
              ([a1, a2, a3] @ ''-'' @ [b1, b2, b3] @ ''-'' @ [c1, c2, c3, c4]))
         = [([a1, a2, a3] @ ''-'' @ [b1, b2, b3] @ ''-'' @ [c1, c2, c3, c4], None)]"
  using assms
  by (simp add: re_finditer_def phone_pattern_def run_length_def digit_facts hyphen_facts)

lemma bare_number_is_absent:
  assumes "is_digit a1" "is_digit a2" "is_digit a3" "is_digit b1" "is_digit b2" "is_digit b3"
    "is_digit c1" "is_digit c2" "is_digit c3" "is_digit c4"
  shows "extract_contact_info ([a1, a2, a3] @ ''-'' @ [b1, b2, b3] @ ''-'' @ [c1, c2, c3, c4])
         = \<lparr>email = None, phone = Some ''''\<rparr>"
proof -
  let ?t = "[a1, a2, a3] @ ''-'' @ [b1, b2, b3] @ ''-'' @ [c1, c2, c3, c4]"
  have "CHR ''@'' \<notin> set ?t"
    using assms by (auto dest: digit_not_at)
  then have e: "re_findall email_pattern ?t = []" by (rule no_at_no_email)
  have p: "re_findall phone_pattern ?t = ['''']"
    unfolding findall_phone_group bare_number_phones[OF assms] by simp
  show ?thesis
    unfolding extract_contact_info_def Let_def e p by (simp add: first_or_none_def)
qed

end
